theory Spec2Isabelle
  imports Main "HOL-Library.Word" "HOL-Library.Multiset"
begin

section \<open>The file exchange backend\<close>

text \<open>
  The Express server of the sample: an authorization middleware and the four group routes.
  Bytes are 8-bit words, a Buffer is a list of them. The storage behind the routes (blob
  container and the two tables) is passed through the handlers as an explicit state.
\<close>

type_synonym byte = "8 word"
type_synonym buffer = "byte list"

record FileMetadata =
  file_id :: string
  file_name :: string
  uploadDateTime :: int

text \<open>
  Modelled from the spec: the module fileService (getUserDetails, addUserDetails,
  getFilesForGroup, getFileMetadata, addFileMetadata, uploadFile, downloadFile, FileServiceError)
  is imported by the server but is not among the sources. The spec describes it as blob storage
  keyed by file id, a metadata table keyed by group and file id whose entries are read-only once
  stored, and user-detail entries recorded per (group, user) pair.
\<close>

record storage =
  blobs :: "string \<rightharpoonup> buffer"
  fileMetadataTable :: "(string \<times> FileMetadata) list"
  userDetailsTable :: "(string \<times> string) list"

datatype service_error = FileServiceError | StorageError

definition empty_storage :: storage where
  "empty_storage = \<lparr>blobs = Map.empty, fileMetadataTable = [], userDetailsTable = []\<rparr>"

text \<open>
  Modelled from the spec: fileService.getUserDetails is not among the sources. It returns the
  user-detail entries previously recorded for this caller in this group.
\<close>

definition getUserDetails :: "string \<Rightarrow> string \<Rightarrow> storage \<Rightarrow> (string \<times> string) list" where
  "getUserDetails groupId userId st = filter (\<lambda>row. row = (groupId, userId)) (userDetailsTable st)"

text \<open>
  Modelled from the spec: fileService.addUserDetails is not among the sources. Registering a
  (group, user) pair records a user-detail entry.
\<close>

definition addUserDetails :: "string \<Rightarrow> string \<Rightarrow> storage \<Rightarrow> storage" where
  "addUserDetails groupId userId st = st\<lparr>userDetailsTable := userDetailsTable st @ [(groupId, userId)]\<rparr>"

text \<open>
  Modelled from the spec: fileService.getFilesForGroup is not among the sources. It returns the
  metadata entries of one group, here in table order.
\<close>

definition getFilesForGroup :: "string \<Rightarrow> storage \<Rightarrow> FileMetadata list" where
  "getFilesForGroup groupId st = map snd (filter (\<lambda>row. fst row = groupId) (fileMetadataTable st))"

text \<open>
  Modelled from the spec: fileService.getFileMetadata is not among the sources. It looks the
  metadata up by group and file id; an absent entry is reported with the error class that the
  download route turns into 404.
\<close>

definition getFileMetadata :: "string \<Rightarrow> string \<Rightarrow> storage \<Rightarrow> service_error + FileMetadata" where
  "getFileMetadata groupId fileId st =
     (case find (\<lambda>row. fst row = groupId \<and> file_id (snd row) = fileId) (fileMetadataTable st) of
        None \<Rightarrow> Inl FileServiceError
      | Some row \<Rightarrow> Inr (snd row))"

text \<open>
  Modelled from the spec: fileService.addFileMetadata is not among the sources. Metadata is
  written keyed by group and id and is never changed afterwards.
\<close>

definition addFileMetadata :: "string \<Rightarrow> FileMetadata \<Rightarrow> storage \<Rightarrow> storage" where
  "addFileMetadata groupId m st = st\<lparr>fileMetadataTable := fileMetadataTable st @ [(groupId, m)]\<rparr>"

text \<open>
  Modelled from the spec: fileService.uploadFile is not among the sources. The bytes are written
  to blob storage under the given id.
\<close>

definition uploadFile :: "string \<Rightarrow> buffer \<Rightarrow> storage \<Rightarrow> storage" where
  "uploadFile fileId buf st = st\<lparr>blobs := (blobs st)(fileId \<mapsto> buf)\<rparr>"

text \<open>
  Modelled from the spec: fileService.downloadFile is not among the sources. It yields the blob
  content stored under the id; a missing blob is a storage failure.
\<close>

definition downloadFile :: "string \<Rightarrow> storage \<Rightarrow> service_error + buffer" where
  "downloadFile fileId st = (case blobs st fileId of None \<Rightarrow> Inl StorageError | Some buf \<Rightarrow> Inr buf)"

subsection \<open>Responses\<close>

datatype header = ContentDisposition_attachment string | ContentType string

datatype body = StatusText | Text string | Json "FileMetadata list" | Binary buffer | ErrorPage

record response =
  status :: nat
  headers :: "header list"
  body :: body

text \<open>
  What leaves a route without a response of its own: an exception thrown inside the async
  handler and caught by nobody.
\<close>

datatype failure = Unhandled service_error

type_synonym outcome = "failure + response"

definition sendStatus :: "nat \<Rightarrow> response" where
  "sendStatus code = \<lparr>status = code, headers = [], body = StatusText\<rparr>"

definition send :: "nat \<Rightarrow> body \<Rightarrow> response" where
  "send code b = \<lparr>status = code, headers = [], body = b\<rparr>"

subsection \<open>Middleware\<close>

definition startsWith :: "string \<Rightarrow> string \<Rightarrow> bool" where
  "startsWith s p = (take (length p) s = p)"

text \<open>fakeAuthMiddleware: the Authorization header must be present and start with "user"; its value becomes req.userId.\<close>

definition fakeAuthMiddleware :: "string option \<Rightarrow> response + string" where
  "fakeAuthMiddleware authValue =
     (case authValue of
        None \<Rightarrow> Inl (sendStatus 403)
      | Some v \<Rightarrow> if v = [] \<or> \<not> startsWith v ''user'' then Inl (sendStatus 403) else Inr v)"

text \<open>
  The body of an upload request as it arrives: the file parts with their field names, in the
  order sent; the text fields image and fileName, each sent at most once; and the other text
  fields with their names (the client also sends groupId). A request that is not multipart has
  none of them.
\<close>

record multipart_request =
  file_parts :: "(string \<times> buffer) list"
  image_field :: "string option"
  fileName_field :: "string option"
  other_fields :: "(string \<times> string) list"

text \<open>
  The upload request as uploadMiddleware.single('file') hands it to the handler: the buffer of
  the multipart file, if one was sent, and the text fields image and fileName of the body.
\<close>

record upload_request =
  req_file :: "buffer option"
  body_image :: "string option"
  body_fileName :: "string option"

definition fieldSize :: nat where
  "fieldSize = 5 * 1024 * 1024"

definition text_values :: "multipart_request \<Rightarrow> string list" where
  "text_values raw =
     (case image_field raw of None \<Rightarrow> [] | Some v \<Rightarrow> [v])
     @ (case fileName_field raw of None \<Rightarrow> [] | Some v \<Rightarrow> [v])
     @ map snd (other_fields raw)"

text \<open>
  An error that a middleware passes to \<open>next\<close> is answered by the framework's default error
  handler; the error of the multipart middleware carries no status of its own, so the answer is
  500.
\<close>

definition defaultErrorHandler :: response where
  "defaultErrorHandler = \<lparr>status = 500, headers = [], body = ErrorPage\<rparr>"

text \<open>
  uploadMiddleware.single('file'), configured with limits fieldSize of 5 MiB. It refuses a
  request with a text field whose value is longer than fieldSize, with a file part under a
  field name other than file, or with more than one file part; the handler is then not run.
  Otherwise it sets req.file to the one file, if any, and req.body to the text fields.
\<close>

definition uploadMiddleware :: "multipart_request \<Rightarrow> response + upload_request" where
  "uploadMiddleware raw =
     (if list_ex (\<lambda>v. fieldSize < length v) (text_values raw) then Inl defaultErrorHandler
      else (case file_parts raw of
              [] \<Rightarrow> Inr \<lparr>req_file = None, body_image = image_field raw,
                          body_fileName = fileName_field raw\<rparr>
            | [part] \<Rightarrow>
                if fst part = ''file''
                then Inr \<lparr>req_file = Some (snd part), body_image = image_field raw,
                           body_fileName = fileName_field raw\<rparr>
                else Inl defaultErrorHandler
            | _ \<Rightarrow> Inl defaultErrorHandler))"

subsection \<open>Array.prototype.sort\<close>

text \<open>
  The list route sorts with the comparator \<open>(a, b) => b.uploadDateTime.getTime() - a.uploadDateTime.getTime()\<close>.
  The sort itself is the platform's; it is stable, and for a consistent comparator its result
  is the one of this stable insertion sort: an element is placed in front of the first element
  that the comparator does not order before it.
\<close>

fun insert_cmp :: "('a \<Rightarrow> 'a \<Rightarrow> int) \<Rightarrow> 'a \<Rightarrow> 'a list \<Rightarrow> 'a list" where
  "insert_cmp cmp x [] = [x]"
| "insert_cmp cmp x (y # ys) = (if cmp x y \<le> 0 then x # y # ys else y # insert_cmp cmp x ys)"

definition array_sort :: "('a \<Rightarrow> 'a \<Rightarrow> int) \<Rightarrow> 'a list \<Rightarrow> 'a list" where
  "array_sort cmp xs = foldr (insert_cmp cmp) xs []"

definition byUploadDesc :: "FileMetadata \<Rightarrow> FileMetadata \<Rightarrow> int" where
  "byUploadDesc a b = uploadDateTime b - uploadDateTime a"

subsection \<open>Routes\<close>

text \<open>GET /groups/:groupId/files\<close>

definition get_files_route :: "string option \<Rightarrow> string \<Rightarrow> storage \<Rightarrow> outcome \<times> storage" where
  "get_files_route authValue groupId st =
     (case fakeAuthMiddleware authValue of
        Inl r \<Rightarrow> (Inr r, st)
      | Inr userId \<Rightarrow>
          if length (getUserDetails groupId userId st) = 0 then (Inr (sendStatus 403), st)
          else (Inr (send 200 (Json (array_sort byUploadDesc (getFilesForGroup groupId st)))), st))"

text \<open>GET /groups/:groupId/files/:fileId\<close>

definition get_file_route :: "string option \<Rightarrow> string \<Rightarrow> string \<Rightarrow> storage \<Rightarrow> outcome \<times> storage" where
  "get_file_route authValue groupId fileId st =
     (case fakeAuthMiddleware authValue of
        Inl r \<Rightarrow> (Inr r, st)
      | Inr userId \<Rightarrow>
          if length (getUserDetails groupId userId st) = 0 then (Inr (sendStatus 403), st)
          else (case getFileMetadata groupId fileId st of
                  Inl FileServiceError \<Rightarrow> (Inr (sendStatus 404), st)
                | Inl e \<Rightarrow> (Inl (Unhandled e), st)
                | Inr file \<Rightarrow>
                    (case downloadFile fileId st of
                       Inl e \<Rightarrow> (Inl (Unhandled e), st)
                     | Inr fileStream \<Rightarrow>
                         (Inr \<lparr>status = 200,
                               headers = [ContentDisposition_attachment (file_name file),
                                          ContentType ''application/octet-stream''],
                               body = Binary fileStream\<rparr>, st))))"

text \<open>
  POST /groups/:groupId/files. The id drawn from uuidv4(), the clock read by \<open>new Date()\<close> and
  \<open>Buffer.from(_, 'base64')\<close> come from the platform and are parameters. Express binds the
  route parameter groupId to a string before the handler runs, so the handler's last guard
  (groupId undefined, 400) has no input that reaches it. Where the file is absent the image is
  present (the first guard), which is what the source's \<open>body.image!\<close> relies on.
\<close>

definition post_files_handler ::
  "(string \<Rightarrow> buffer) \<Rightarrow> string \<Rightarrow> int \<Rightarrow> string \<Rightarrow> string \<Rightarrow> upload_request \<Rightarrow> storage
     \<Rightarrow> outcome \<times> storage" where
  "post_files_handler fromBase64 newFileId now userId groupId req st =
     (if length (getUserDetails groupId userId st) = 0 then (Inr (sendStatus 403), st)
      else if req_file req = None \<and> body_image req = None
        then (Inr (send 400 (Text ''Invalid file/image'')), st)
      else (case body_fileName req of
              None \<Rightarrow> (Inr (send 400 (Text ''Invalid file name'')), st)
            | Some fileName \<Rightarrow>
                let st1 = (case req_file req of
                             Some buf \<Rightarrow> uploadFile newFileId buf st
                           | None \<Rightarrow> uploadFile newFileId (fromBase64 (the (body_image req))) st);
                    newFileMetadata = \<lparr>file_id = newFileId, file_name = fileName, uploadDateTime = now\<rparr>;
                    st2 = addFileMetadata groupId newFileMetadata st1
                in (Inr (sendStatus 204), st2)))"

text \<open>The route runs fakeAuthMiddleware, then uploadMiddleware.single('file'), then the handler.\<close>

definition post_files_route ::
  "(string \<Rightarrow> buffer) \<Rightarrow> string \<Rightarrow> int \<Rightarrow> string option \<Rightarrow> string \<Rightarrow> multipart_request \<Rightarrow> storage
     \<Rightarrow> outcome \<times> storage" where
  "post_files_route fromBase64 newFileId now authValue groupId raw st =
     (case fakeAuthMiddleware authValue of
        Inl r \<Rightarrow> (Inr r, st)
      | Inr userId \<Rightarrow>
          (case uploadMiddleware raw of
             Inl r \<Rightarrow> (Inr r, st)
           | Inr req \<Rightarrow> post_files_handler fromBase64 newFileId now userId groupId req st))"

text \<open>POST /groups/:groupId/user\<close>

definition post_user_route :: "string option \<Rightarrow> string \<Rightarrow> storage \<Rightarrow> outcome \<times> storage" where
  "post_user_route authValue groupId st =
     (case fakeAuthMiddleware authValue of
        Inl r \<Rightarrow> (Inr r, st)
      | Inr userId \<Rightarrow> (Inr (sendStatus 204), addUserDetails groupId userId st))"


text \<open>A request history: each upload carries the id and the time the server drew for it.\<close>

datatype request =
    GetFiles "string option" string
  | GetFile "string option" string string
  | PostFiles string int "string option" string multipart_request
  | PostUser "string option" string

fun serve :: "(string \<Rightarrow> buffer) \<Rightarrow> request \<Rightarrow> storage \<Rightarrow> outcome \<times> storage" where
  "serve fromBase64 (GetFiles authValue groupId) st = get_files_route authValue groupId st"
| "serve fromBase64 (GetFile authValue groupId fileId) st = get_file_route authValue groupId fileId st"
| "serve fromBase64 (PostFiles newFileId now authValue groupId raw) st =
     post_files_route fromBase64 newFileId now authValue groupId raw st"
| "serve fromBase64 (PostUser authValue groupId) st = post_user_route authValue groupId st"

definition serve_all :: "(string \<Rightarrow> buffer) \<Rightarrow> request list \<Rightarrow> storage \<Rightarrow> storage" where
  "serve_all fromBase64 reqs st = fold (\<lambda>r s. snd (serve fromBase64 r s)) reqs st"

text \<open>The ids that the uploads of a history were given.\<close>

fun upload_ids :: "request list \<Rightarrow> string list" where
  "upload_ids [] = []"
| "upload_ids (PostFiles newFileId now authValue groupId raw # rs) = newFileId # upload_ids rs"
| "upload_ids (r # rs) = upload_ids rs"

section \<open>The client's side effects\<close>

text \<open>
  The thunks of sideEffects.ts receive \<open>dispatch\<close> and \<open>getState\<close>. Here the store is
  passed explicitly: \<open>dispatch\<close> applies the store's reducer, which is a parameter of every
  thunk, and everything a thunk does to the outside (SDK calls, subscriptions, network
  requests, logging) is recorded in order in a trace. A thunk is modelled running alone:
  nothing else dispatches while it waits on a promise.
\<close>

record DeviceInfo =
  device_id :: string
  device_name :: string

record RemoteParticipant =
  participant_identifier :: string

record Call =
  call_ref :: nat
  isIncoming :: bool
  callState :: string
  isScreenSharingOn :: bool
  remoteParticipants :: "RemoteParticipant list"

text \<open>
  Modelled from the spec: the store's State type is imported from the reducers module, which is
  not among the sources. The fields are the ones that sideEffects.ts reads
  (state.calls.call, state.calls.attempts, state.calls.group, state.controls.mic,
  state.controls.shareScreen, state.devices.audioDeviceInfo, state.devices.videoDeviceInfo,
  state.sdk.userId, state.files.files) and the ones that its actions replace.
\<close>

record CallsState =
  call :: "Call option"
  attempts :: nat
  group :: string
  storedCallState :: string
  storedParticipants :: "RemoteParticipant list"

record ControlsState =
  mic :: bool
  shareScreen :: bool

record DevicesState =
  audioDeviceInfo :: "DeviceInfo option"
  videoDeviceInfo :: "DeviceInfo option"
  audioDeviceList :: "DeviceInfo list"
  videoDeviceList :: "DeviceInfo list"

record SdkState =
  userId :: "string option"

record FileEntry =
  blobUrl :: "string option"
  isDownloading :: bool

record State =
  calls :: CallsState
  controls :: ControlsState
  devices :: DevicesState
  sdk :: SdkState
  files :: "string \<rightharpoonup> FileEntry"
  screenShareStreams :: "string list"

text \<open>The actions that the modelled thunks dispatch, named as their action creators.\<close>

datatype action =
    callAdded Call
  | callRemoved Call string
  | setCallState string
  | setParticipants "RemoteParticipant list"
  | callRetried nat
  | setMic bool
  | setShareScreen bool
  | resetControls
  | resetStreams
  | setAudioDeviceInfo "DeviceInfo option"
  | setAudioDeviceList "DeviceInfo list"
  | setVideoDeviceInfo "DeviceInfo option"
  | setVideoDeviceList "DeviceInfo list"
  | setFileBlobUrl string string
  | setFileIsDownloading string bool

datatype call_method = mute | unmute | startScreenSharing | stopScreenSharing

datatype effect =
    Dispatched action
  | CallMethod Call call_method
  | CallReject Call
  | CallOn Call string
  | ParticipantOn RemoteParticipant string
  | DeviceManager_setMicrophone DeviceInfo
  | Fetch string string
  | ConsoleError

type_synonym reducer = "action \<Rightarrow> State \<Rightarrow> State"
type_synonym run = "State \<times> effect list"

definition dispatch :: "reducer \<Rightarrow> action \<Rightarrow> run \<Rightarrow> run" where
  "dispatch reduce a r = (reduce a (fst r), snd r @ [Dispatched a])"

definition perform :: "effect list \<Rightarrow> run \<Rightarrow> run" where
  "perform es r = (fst r, snd r @ es)"

text \<open>JavaScript indexing: reading past the end of an array gives undefined.\<close>

definition index_js :: "'a list \<Rightarrow> nat \<Rightarrow> 'a option" where
  "index_js xs i = (if i < length xs then Some (xs ! i) else None)"

subsection \<open>Toggles\<close>

text \<open>
  setMicrophone and setShareUnshareScreen. \<open>getState()\<close> is compared with undefined in the
  source, so the store content is optional here. \<open>resolves m\<close> tells whether the promise
  of the SDK method \<open>m\<close> resolves.
\<close>

definition setMicrophone ::
  "bool \<Rightarrow> reducer \<Rightarrow> (call_method \<Rightarrow> bool) \<Rightarrow> State option \<Rightarrow> State option \<times> effect list" where
  "setMicrophone micValue reduce resolves state =
     (case state of
        None \<Rightarrow> (state, [ConsoleError])
      | Some s \<Rightarrow>
         (case call (calls s) of
            None \<Rightarrow> (state, [ConsoleError])
          | Some c \<Rightarrow>
              let m = (if \<not> mic (controls s) then unmute else mute)
              in if resolves m
                 then (Some (reduce (setMic micValue) s), [CallMethod c m, Dispatched (setMic micValue)])
                 else (state, [CallMethod c m, ConsoleError])))"

definition setShareUnshareScreen ::
  "bool \<Rightarrow> reducer \<Rightarrow> (call_method \<Rightarrow> bool) \<Rightarrow> State option \<Rightarrow> State option \<times> effect list" where
  "setShareUnshareScreen shareScreenValue reduce resolves state =
     (case state of
        None \<Rightarrow> (state, [ConsoleError])
      | Some s \<Rightarrow>
         (case call (calls s) of
            None \<Rightarrow> (state, [ConsoleError])
          | Some c \<Rightarrow>
              let m = (if \<not> shareScreen (controls s) then startScreenSharing else stopScreenSharing)
              in if resolves m
                 then (Some (reduce (setShareScreen shareScreenValue) s),
                       [CallMethod c m, Dispatched (setShareScreen shareScreenValue)])
                 else (state, [CallMethod c m, ConsoleError])))"

subsection \<open>The callsUpdated handler of initCallClient\<close>

definition subscribeToParticipant :: "RemoteParticipant \<Rightarrow> effect list" where
  "subscribeToParticipant participant =
     [ParticipantOn participant ''participantStateChanged'',
      ParticipantOn participant ''isSpeakingChanged'',
      ParticipantOn participant ''videoStreamsUpdated'']"

definition onCallAdded :: "reducer \<Rightarrow> Call \<Rightarrow> run \<Rightarrow> run" where
  "onCallAdded reduce addedCall r =
     (let state = fst r
      in if call (calls state) \<noteq> None \<and> isIncoming addedCall
         then perform [CallReject addedCall] r
         else
           let r1 = dispatch reduce (callAdded addedCall) r;
               r2 = perform [CallOn addedCall ''callStateChanged'',
                             CallOn addedCall ''isScreenSharingOnChanged'',
                             CallOn addedCall ''remoteParticipantsUpdated''] r1;
               rp = remoteParticipants addedCall;
               r3 = perform (concat (map subscribeToParticipant rp)) r2;
               r4 = dispatch reduce (setParticipants rp) r3
           in dispatch reduce (setCallState (callState addedCall)) r4)"

text \<open>\<open>state.calls.call === removedCall\<close> compares object identity.\<close>

definition onCallRemoved :: "reducer \<Rightarrow> Call \<Rightarrow> run \<Rightarrow> run" where
  "onCallRemoved reduce removedCall r =
     (let state = fst r;
          r1 = dispatch reduce (callRetried (attempts (calls state) + 1)) r
      in case call (calls state) of
           None \<Rightarrow> r1
         | Some c \<Rightarrow>
             if call_ref c = call_ref removedCall
             then dispatch reduce resetStreams
                    (dispatch reduce resetControls
                       (dispatch reduce (callRemoved removedCall (group (calls state))) r1))
             else r1)"

definition callsUpdated :: "reducer \<Rightarrow> Call list \<Rightarrow> Call list \<Rightarrow> run \<Rightarrow> run" where
  "callsUpdated reduce added removed r =
     fold (onCallRemoved reduce) removed (fold (onCallAdded reduce) added r)"

subsection \<open>Device refresh\<close>

text \<open>
  updateAudioDevices and updateVideoDevices. The enumerated list is what the device manager
  returned; the membership tests utils.isSelectedAudioDeviceInList and
  utils.isSelectedVideoDeviceInList are not among the sources and are parameters.
\<close>

definition updateAudioDevices ::
  "reducer \<Rightarrow> (DeviceInfo \<Rightarrow> DeviceInfo list \<Rightarrow> bool) \<Rightarrow> DeviceInfo list \<Rightarrow> State \<Rightarrow> run" where
  "updateAudioDevices reduce isSelectedAudioDeviceInList microphoneList st =
     (let r1 = dispatch reduce (setAudioDeviceList microphoneList) (st, []);
          state = fst r1
      in if audioDeviceInfo (devices state) = None \<and> length microphoneList > 0
         then perform [DeviceManager_setMicrophone (microphoneList ! 0)]
                (dispatch reduce (setAudioDeviceInfo (index_js microphoneList 0)) r1)
         else (case audioDeviceInfo (devices state) of
                 None \<Rightarrow> r1
               | Some selected \<Rightarrow>
                   if \<not> isSelectedAudioDeviceInList selected microphoneList
                   then perform [DeviceManager_setMicrophone selected] r1
                   else r1))"

definition updateVideoDevices ::
  "reducer \<Rightarrow> (DeviceInfo \<Rightarrow> DeviceInfo list \<Rightarrow> bool) \<Rightarrow> DeviceInfo list \<Rightarrow> State \<Rightarrow> run" where
  "updateVideoDevices reduce isSelectedVideoDeviceInList cameraList st =
     (let r1 = dispatch reduce (setVideoDeviceList cameraList) (st, []);
          state = fst r1
      in case videoDeviceInfo (devices state) of
           None \<Rightarrow> dispatch reduce (setVideoDeviceInfo (index_js cameraList 0)) r1
         | Some selected \<Rightarrow>
             if \<not> isSelectedVideoDeviceInList selected cameraList
             then dispatch reduce (setVideoDeviceInfo (Some selected)) r1
             else r1)"

subsection \<open>File download\<close>

text \<open>
  getFile. The network is a parameter: \<open>fetch url authorization\<close> either rejects or resolves
  with a response whose \<open>blob()\<close> again rejects or resolves. An async function that
  throws returns a rejected promise; nothing in getFile catches.
\<close>

datatype fetch_result = NetworkError | Response "buffer option"

datatype settled = fulfilled | rejected

definition getFile ::
  "string \<Rightarrow> reducer \<Rightarrow> (string \<Rightarrow> string \<Rightarrow> fetch_result) \<Rightarrow> (buffer \<Rightarrow> string) \<Rightarrow> State
     \<Rightarrow> settled \<times> run" where
  "getFile fileId reduce fetch createObjectURL state =
     (case userId (sdk state) of
        None \<Rightarrow> (fulfilled, (state, [ConsoleError]))
      | Some uid \<Rightarrow>
          let r1 = dispatch reduce (setFileIsDownloading fileId True) (state, []);
              url = ''/groups/'' @ group (calls state) @ ''/files/'' @ fileId;
              r2 = perform [Fetch url uid] r1
          in (case fetch url uid of
                NetworkError \<Rightarrow> (rejected, r2)
              | Response None \<Rightarrow> (rejected, r2)
              | Response (Some blob) \<Rightarrow>
                  (let objectUrl = createObjectURL blob;
                       r3 = dispatch reduce (setFileBlobUrl fileId objectUrl) r2
                   in (fulfilled, dispatch reduce (setFileIsDownloading fileId False) r3))))"

text \<open>
  Modelled from the spec: the reducers are not among the sources. Per the spec every dispatched
  change replaces the relevant subtree of the store; a removed call clears the call, and the
  controls and streams subtrees are reset to their initial content.
\<close>

fun rootReducer :: reducer where
  "rootReducer (callAdded c) s = s\<lparr>calls := (calls s)\<lparr>call := Some c\<rparr>\<rparr>"
| "rootReducer (callRemoved c g) s =
     s\<lparr>calls := (calls s)\<lparr>call := None, group := g, storedParticipants := []\<rparr>\<rparr>"
| "rootReducer (setCallState cs) s = s\<lparr>calls := (calls s)\<lparr>storedCallState := cs\<rparr>\<rparr>"
| "rootReducer (setParticipants ps) s = s\<lparr>calls := (calls s)\<lparr>storedParticipants := ps\<rparr>\<rparr>"
| "rootReducer (callRetried n) s = s\<lparr>calls := (calls s)\<lparr>attempts := n\<rparr>\<rparr>"
| "rootReducer (setMic b) s = s\<lparr>controls := (controls s)\<lparr>mic := b\<rparr>\<rparr>"
| "rootReducer (setShareScreen b) s = s\<lparr>controls := (controls s)\<lparr>shareScreen := b\<rparr>\<rparr>"
| "rootReducer resetControls s = s\<lparr>controls := \<lparr>mic = False, shareScreen = False\<rparr>\<rparr>"
| "rootReducer resetStreams s = s\<lparr>screenShareStreams := []\<rparr>"
| "rootReducer (setAudioDeviceInfo d) s = s\<lparr>devices := (devices s)\<lparr>audioDeviceInfo := d\<rparr>\<rparr>"
| "rootReducer (setAudioDeviceList ds) s = s\<lparr>devices := (devices s)\<lparr>audioDeviceList := ds\<rparr>\<rparr>"
| "rootReducer (setVideoDeviceInfo d) s = s\<lparr>devices := (devices s)\<lparr>videoDeviceInfo := d\<rparr>\<rparr>"
| "rootReducer (setVideoDeviceList ds) s = s\<lparr>devices := (devices s)\<lparr>videoDeviceList := ds\<rparr>\<rparr>"
| "rootReducer (setFileBlobUrl i url) s =
     (case files s i of
        None \<Rightarrow> s
      | Some f \<Rightarrow> s\<lparr>files := (files s)(i \<mapsto> f\<lparr>blobUrl := Some url\<rparr>)\<rparr>)"
| "rootReducer (setFileIsDownloading i b) s =
     (case files s i of
        None \<Rightarrow> s
      | Some f \<Rightarrow> s\<lparr>files := (files s)(i \<mapsto> f\<lparr>isDownloading := b\<rparr>)\<rparr>)"

definition initialState :: State where
  "initialState =
     \<lparr>calls = \<lparr>call = None, attempts = 0, group = ''g1'', storedCallState = ''None'', storedParticipants = []\<rparr>,
      controls = \<lparr>mic = False, shareScreen = False\<rparr>,
      devices = \<lparr>audioDeviceInfo = None, videoDeviceInfo = None, audioDeviceList = [], videoDeviceList = []\<rparr>,
      sdk = \<lparr>userId = Some ''user1''\<rparr>,
      files = Map.empty,
      screenShareStreams = []\<rparr>"


section \<open>Auxiliary notions for the properties\<close>

text \<open>Every metadata row has its blob: the upload route writes the blob before the row.\<close>

definition blob_for_metadata :: "storage \<Rightarrow> bool" where
  "blob_for_metadata st = (\<forall>g m. (g, m) \<in> set (fileMetadataTable st) \<longrightarrow> blobs st (file_id m) \<noteq> None)"

text \<open>A metadata row stems from an upload of the history, with that id, group and file name.\<close>

definition from_upload :: "request list \<Rightarrow> string \<times> FileMetadata \<Rightarrow> bool" where
  "from_upload rs row = (\<exists>t a raw. PostFiles (file_id (snd row)) t a (fst row) raw \<in> set rs
                            \<and> fileName_field raw = Some (file_name (snd row)))"

text \<open>A small history for the examples, and the storage it leaves.\<close>

definition exampleHistory :: "request list" where
  "exampleHistory =
     [PostUser (Some ''user1'') ''g1'',
      PostFiles ''id1'' 100 (Some ''user1'') ''g1''
        \<lparr>file_parts = [(''file'', [1, 2, 3])], image_field = None, fileName_field = Some ''a.png'',
         other_fields = [(''groupId'', ''g1'')]\<rparr>,
      PostFiles ''id2'' 200 (Some ''user1'') ''g1''
        \<lparr>file_parts = [(''file'', [4, 5])], image_field = None, fileName_field = Some ''b.txt'',
         other_fields = [(''groupId'', ''g1'')]\<rparr>]"

definition fileUpload :: multipart_request where
  "fileUpload =
     \<lparr>file_parts = [(''file'', [7])], image_field = None, fileName_field = Some ''c.bin'',
      other_fields = [(''groupId'', ''g1'')]\<rparr>"

definition fileWithoutName :: multipart_request where
  "fileWithoutName =
     \<lparr>file_parts = [(''file'', [7])], image_field = None, fileName_field = None, other_fields = []\<rparr>"

definition misnamedFile :: multipart_request where
  "misnamedFile =
     \<lparr>file_parts = [(''photo'', [7])], image_field = None, fileName_field = Some ''c.bin'',
      other_fields = []\<rparr>"

definition exampleStorage :: storage where
  "exampleStorage =
     \<lparr>blobs = [''id1'' \<mapsto> [1, 2, 3], ''id2'' \<mapsto> [4, 5]],
      fileMetadataTable =
        [(''g1'', \<lparr>file_id = ''id1'', file_name = ''a.png'', uploadDateTime = 100\<rparr>),
         (''g1'', \<lparr>file_id = ''id2'', file_name = ''b.txt'', uploadDateTime = 200\<rparr>)],
      userDetailsTable = [(''g1'', ''user1'')]\<rparr>"

text \<open>The calls that the store tracks: the content of state.calls.call.\<close>

definition trackedCalls :: "State \<Rightarrow> Call list" where
  "trackedCalls s = (case call (calls s) of None \<Rightarrow> [] | Some c \<Rightarrow> [c])"

text \<open>Calls, devices and store contents for the examples.\<close>

definition exampleCall :: Call where
  "exampleCall = \<lparr>call_ref = 1, isIncoming = False, callState = ''Connecting'',
                   isScreenSharingOn = False, remoteParticipants = [\<lparr>participant_identifier = ''user2''\<rparr>]\<rparr>"

definition incomingCall :: Call where
  "incomingCall = \<lparr>call_ref = 2, isIncoming = True, callState = ''Incoming'',
                    isScreenSharingOn = False, remoteParticipants = []\<rparr>"

definition inCallState :: State where
  "inCallState = initialState\<lparr>calls := (calls initialState)\<lparr>call := Some exampleCall\<rparr>\<rparr>"

definition exampleMic :: DeviceInfo where
  "exampleMic = \<lparr>device_id = ''mic1'', device_name = ''Built-in microphone''\<rparr>"

definition otherMic :: DeviceInfo where
  "otherMic = \<lparr>device_id = ''mic2'', device_name = ''Headset''\<rparr>"

definition listedFileState :: State where
  "listedFileState = initialState\<lparr>files := [''f1'' \<mapsto> \<lparr>blobUrl = None, isDownloading = False\<rparr>]\<rparr>"

text \<open>Network outcomes for the examples: a request that rejects, and one that resolves with a body.\<close>

definition fetchRejects :: "string \<Rightarrow> string \<Rightarrow> fetch_result" where
  "fetchRejects url authorization = NetworkError"

definition fetchResolves :: "string \<Rightarrow> string \<Rightarrow> fetch_result" where
  "fetchResolves url authorization = Response (Some [1, 2, 3])"

definition exampleObjectURL :: "buffer \<Rightarrow> string" where
  "exampleObjectURL blob = ''blob:1''"

section \<open>Properties of the backend\<close>

lemma fakeAuth_Inl: "fakeAuthMiddleware a = Inl r \<Longrightarrow> r = sendStatus 403"
  by (auto simp: fakeAuthMiddleware_def split: option.splits if_splits)

lemma serve_all_snoc: "serve_all f (rs @ [r]) st = snd (serve f r (serve_all f rs st))"
  by (simp add: serve_all_def)

lemma serve_all_Nil: "serve_all f [] st = st"
  by (simp add: serve_all_def)

lemma get_files_route_storage: "snd (get_files_route a g st) = st"
  by (simp add: get_files_route_def split: sum.splits)

lemma get_file_route_storage: "snd (get_file_route a g i st) = st"
  by (simp add: get_file_route_def split: sum.splits service_error.splits)

lemma post_user_route_storage:
  "snd (post_user_route a g st) = st \<or> (\<exists>u. snd (post_user_route a g st) = addUserDetails g u st)"
  by (auto simp: post_user_route_def split: sum.splits)

text \<open>What an accepted upload writes.\<close>

lemma uploadMiddleware_Inl: "uploadMiddleware raw = Inl r \<Longrightarrow> r = defaultErrorHandler"
  by (auto simp: uploadMiddleware_def split: if_splits list.splits)

lemma uploadMiddleware_Inr:
  "uploadMiddleware raw = Inr req \<Longrightarrow>
     body_image req = image_field raw \<and> body_fileName req = fileName_field raw
   \<and> (file_parts raw = [] \<and> req_file req = None
        \<or> (\<exists>buf. file_parts raw = [(''file'', buf)] \<and> req_file req = Some buf))"
  by (auto simp: uploadMiddleware_def split: if_splits list.splits)

lemma post_files_handler_storage:
  "snd (post_files_handler f n t u g req st) = st \<or>
   (\<exists>buf name. snd (post_files_handler f n t u g req st) =
        addFileMetadata g \<lparr>file_id = n, file_name = name, uploadDateTime = t\<rparr> (uploadFile n buf st)
      \<and> body_fileName req = Some name)"
  by (auto simp: post_files_handler_def Let_def split: option.splits)

lemma post_files_route_storage:
  "snd (post_files_route f n t a g raw st) = st \<or>
   (\<exists>buf name. snd (post_files_route f n t a g raw st) =
        addFileMetadata g \<lparr>file_id = n, file_name = name, uploadDateTime = t\<rparr> (uploadFile n buf st)
      \<and> fileName_field raw = Some name)"
proof (cases "fakeAuthMiddleware a")
  case (Inl r)
  then show ?thesis by (simp add: post_files_route_def)
next
  case (Inr u)
  show ?thesis
  proof (cases "uploadMiddleware raw")
    case (Inl r)
    with Inr show ?thesis by (simp add: post_files_route_def)
  next
    case req: (Inr req)
    then have "body_fileName req = fileName_field raw" by (simp add: uploadMiddleware_Inr)
    with Inr req post_files_handler_storage [of f n t u g req st] show ?thesis
      by (auto simp: post_files_route_def)
  qed
qed

lemma blobs_serve_other:
  "n \<notin> set (upload_ids [r]) \<Longrightarrow> blobs (snd (serve f r st)) n = blobs st n"
proof (cases r)
  case (PostFiles n' t a g req)
  assume "n \<notin> set (upload_ids [r])"
  with PostFiles have "n \<noteq> n'" by simp
  with post_files_route_storage [of f n' t a g req st] PostFiles show ?thesis
    by (auto simp: addFileMetadata_def uploadFile_def)
next
  case (PostUser a g)
  with post_user_route_storage [of a g st] show ?thesis
    by (auto simp: addUserDetails_def)
qed (simp_all add: get_files_route_storage get_file_route_storage)

lemma upload_ids_append: "upload_ids (xs @ ys) = upload_ids xs @ upload_ids ys"
  by (induction xs rule: upload_ids.induct) simp_all

lemma blobs_serve_all_other:
  "n \<notin> set (upload_ids rs) \<Longrightarrow> blobs (serve_all f rs st) n = blobs st n"
proof (induction rs rule: rev_induct)
  case Nil
  show ?case by (simp add: serve_all_Nil)
next
  case (snoc r rs)
  then have "n \<notin> set (upload_ids [r])" and "n \<notin> set (upload_ids rs)"
    by (simp_all add: upload_ids_append)
  with snoc.IH show ?case
    by (simp add: serve_all_snoc blobs_serve_other)
qed

lemma users_serve_mono:
  "set (userDetailsTable st) \<subseteq> set (userDetailsTable (snd (serve f r st)))"
proof (cases r)
  case (PostFiles n' t a g req)
  with post_files_route_storage [of f n' t a g req st] show ?thesis
    by (auto simp: addFileMetadata_def uploadFile_def)
next
  case (PostUser a g)
  with post_user_route_storage [of a g st] show ?thesis
    by (auto simp: addUserDetails_def)
qed (simp_all add: get_files_route_storage get_file_route_storage)

lemma users_serve_all_mono:
  "set (userDetailsTable st) \<subseteq> set (userDetailsTable (serve_all f rs st))"
proof (induction rs rule: rev_induct)
  case Nil
  show ?case by (simp add: serve_all_Nil)
next
  case (snoc r rs)
  with users_serve_mono [of "serve_all f rs st" f r] show ?case
    by (auto simp: serve_all_snoc)
qed

lemma member_iff: "getUserDetails g u st \<noteq> [] \<longleftrightarrow> (g, u) \<in> set (userDetailsTable st)"
  by (auto simp: getUserDetails_def filter_empty_conv)

lemma metadata_serve_prefix:
  "\<exists>more. fileMetadataTable (snd (serve f r st)) = fileMetadataTable st @ more"
proof (cases r)
  case (PostFiles n' t a g req)
  with post_files_route_storage [of f n' t a g req st] show ?thesis
    by (auto simp: addFileMetadata_def uploadFile_def)
next
  case (PostUser a g)
  with post_user_route_storage [of a g st] show ?thesis
    by (auto simp: addUserDetails_def)
qed (simp_all add: get_files_route_storage get_file_route_storage)

lemma metadata_serve_all_prefix:
  "\<exists>more. fileMetadataTable (serve_all f rs st) = fileMetadataTable st @ more"
proof (induction rs rule: rev_induct)
  case Nil
  show ?case by (simp add: serve_all_Nil)
next
  case (snoc r rs)
  then obtain m1 where m1: "fileMetadataTable (serve_all f rs st) = fileMetadataTable st @ m1" by blast
  obtain m2 where "fileMetadataTable (snd (serve f r (serve_all f rs st))) = fileMetadataTable (serve_all f rs st) @ m2"
    using metadata_serve_prefix by blast
  with m1 show ?case by (simp add: serve_all_snoc)
qed

lemma getFileMetadata_id:
  "getFileMetadata g i st = Inr m \<Longrightarrow> file_id m = i \<and> (g, m) \<in> set (fileMetadataTable st)"
  by (auto simp: getFileMetadata_def find_Some_iff split: option.splits)

lemma getFileMetadata_Inl: "getFileMetadata g i st = Inl e \<Longrightarrow> e = FileServiceError"
  by (auto simp: getFileMetadata_def split: option.splits)

lemma blob_for_metadata_serve:
  "blob_for_metadata st \<Longrightarrow> blob_for_metadata (snd (serve f r st))"
proof (cases r)
  case (PostFiles n' t a g req)
  assume "blob_for_metadata st"
  with post_files_route_storage [of f n' t a g req st] PostFiles show ?thesis
    by (auto simp: addFileMetadata_def uploadFile_def blob_for_metadata_def)
next
  case (PostUser a g)
  assume "blob_for_metadata st"
  with post_user_route_storage [of a g st] PostUser show ?thesis
    by (auto simp: addUserDetails_def blob_for_metadata_def)
qed (simp_all add: get_files_route_storage get_file_route_storage)

lemma blob_for_metadata_serve_all:
  "blob_for_metadata st \<Longrightarrow> blob_for_metadata (serve_all f rs st)"
  by (induction rs rule: rev_induct) (simp_all add: serve_all_Nil serve_all_snoc blob_for_metadata_serve)

lemma blob_for_metadata_empty: "blob_for_metadata empty_storage"
  by (simp add: blob_for_metadata_def empty_storage_def)

lemma metadata_origin:
  "row \<in> set (fileMetadataTable (serve_all f rs empty_storage)) \<Longrightarrow> from_upload rs row"
proof (induction rs arbitrary: row rule: rev_induct)
  case Nil
  then show ?case by (simp add: serve_all_Nil empty_storage_def)
next
  case (snoc r rs)
  let ?st = "serve_all f rs empty_storage"
  have mono: "from_upload rs x \<Longrightarrow> from_upload (rs @ [r]) x" for x
    by (auto simp: from_upload_def)
  show ?case
  proof (cases r)
    case (PostFiles n' t a g raw)
    with post_files_route_storage [of f n' t a g raw ?st] snoc.prems
    consider "row \<in> set (fileMetadataTable ?st)"
      | name where "row = (g, \<lparr>file_id = n', file_name = name, uploadDateTime = t\<rparr>)" "fileName_field raw = Some name"
      by (auto simp: serve_all_snoc addFileMetadata_def uploadFile_def)
    then show ?thesis
    proof cases
      case 1
      then show ?thesis using snoc.IH mono by blast
    next
      case 2
      with PostFiles show ?thesis by (auto simp: from_upload_def)
    qed
  next
    case (PostUser a g)
    with post_user_route_storage [of a g ?st] snoc.prems
    have "row \<in> set (fileMetadataTable ?st)"
      by (auto simp: serve_all_snoc addUserDetails_def)
    then show ?thesis using snoc.IH mono by blast
  next
    case (GetFiles a g)
    with snoc.prems have "row \<in> set (fileMetadataTable ?st)"
      by (simp add: serve_all_snoc get_files_route_storage)
    then show ?thesis using snoc.IH mono by blast
  next
    case (GetFile a g i)
    with snoc.prems have "row \<in> set (fileMetadataTable ?st)"
      by (simp add: serve_all_snoc get_file_route_storage)
    then show ?thesis using snoc.IH mono by blast
  qed
qed

lemma fakeAuth_user1: "fakeAuthMiddleware (Some ''user1'') = Inr ''user1''"
  by (simp add: fakeAuthMiddleware_def startsWith_def)

lemma exampleStorage_history: "serve_all (map of_char) exampleHistory empty_storage = exampleStorage"
  by (simp add: serve_all_def exampleHistory_def exampleStorage_def empty_storage_def
      post_user_route_def post_files_route_def post_files_handler_def uploadMiddleware_def
      text_values_def fieldSize_def fakeAuth_user1 getUserDetails_def
      addUserDetails_def addFileMetadata_def uploadFile_def sendStatus_def)

lemma mset_insert_cmp: "mset (insert_cmp cmp x xs) = add_mset x (mset xs)"
  by (induction xs) simp_all

lemma mset_array_sort: "mset (array_sort cmp xs) = mset xs"
  unfolding array_sort_def by (induction xs) (simp_all add: mset_insert_cmp)

lemma set_insert_cmp: "set (insert_cmp cmp x xs) = insert x (set xs)"
  by (induction xs) auto

lemma desc_insert_cmp:
  "sorted_wrt (\<lambda>a b. uploadDateTime b \<le> uploadDateTime a) xs \<Longrightarrow>
   sorted_wrt (\<lambda>a b. uploadDateTime b \<le> uploadDateTime a) (insert_cmp byUploadDesc x xs)"
proof (induction xs)
  case Nil
  then show ?case by simp
next
  case (Cons y ys)
  show ?case
  proof (cases "byUploadDesc x y \<le> 0")
    case True
    then have "uploadDateTime y \<le> uploadDateTime x" by (simp add: byUploadDesc_def)
    with Cons.prems True show ?thesis by fastforce
  next
    case False
    then have "uploadDateTime x \<le> uploadDateTime y" by (simp add: byUploadDesc_def)
    with Cons False show ?thesis by (auto simp: set_insert_cmp)
  qed
qed

lemma desc_array_sort:
  "sorted_wrt (\<lambda>a b. uploadDateTime b \<le> uploadDateTime a) (array_sort byUploadDesc xs)"
  unfolding array_sort_def by (induction xs) (simp_all add: desc_insert_cmp)

lemma get_files_route_200:
  assumes "get_files_route authValue groupId st = (Inr resp, st')" and "status resp = 200"
  shows "body resp = Json (array_sort byUploadDesc (getFilesForGroup groupId st))"
  using assms
  by (auto simp: get_files_route_def sendStatus_def send_def dest!: fakeAuth_Inl split: sum.splits if_splits)

text \<open>
  C6: a successful list request (status 200) returns the group's metadata entries, all of them,
  ordered by uploadDateTime descending: whenever one entry of the array has a later upload
  time than another, it stands before it.
\<close>

theorem list_sorted_newest_first:
  assumes "get_files_route authValue groupId st = (Inr resp, st')" and "status resp = 200"
  shows "\<exists>fs. body resp = Json fs \<and> mset fs = mset (getFilesForGroup groupId st) \<and>
           (\<forall>i < length fs. \<forall>j < length fs.
               uploadDateTime (fs ! j) < uploadDateTime (fs ! i) \<longrightarrow> i < j)"
proof -
  let ?fs = "array_sort byUploadDesc (getFilesForGroup groupId st)"
  have b: "body resp = Json ?fs" using assms by (rule get_files_route_200)
  have s: "sorted_wrt (\<lambda>a b. uploadDateTime b \<le> uploadDateTime a) ?fs" by (rule desc_array_sort)
  have "i < j" if "i < length ?fs" "j < length ?fs" "uploadDateTime (?fs ! j) < uploadDateTime (?fs ! i)" for i j
  proof (rule ccontr)
    assume "\<not> i < j"
    then consider "i = j" | "j < i" by linarith
    then show False
    proof cases
      case 1 with that show False by simp
    next
      case 2
      with s that have "uploadDateTime (?fs ! i) \<le> uploadDateTime (?fs ! j)"
        by (simp add: sorted_wrt_iff_nth_less)
      with that show False by simp
    qed
  qed
  with b show ?thesis by (auto simp: mset_array_sort)
qed

lemma example_list:
  "get_files_route (Some ''user1'') ''g1'' exampleStorage =
     (Inr (send 200 (Json [\<lparr>file_id = ''id2'', file_name = ''b.txt'', uploadDateTime = 200\<rparr>,
                           \<lparr>file_id = ''id1'', file_name = ''a.png'', uploadDateTime = 100\<rparr>])),
      exampleStorage)"
  by (simp add: get_files_route_def fakeAuth_user1 getUserDetails_def exampleStorage_def
      getFilesForGroup_def array_sort_def byUploadDesc_def)

theorem list_sorted_newest_first_witness:
  "get_files_route (Some ''user1'') ''g1'' exampleStorage =
     (Inr (send 200 (Json [\<lparr>file_id = ''id2'', file_name = ''b.txt'', uploadDateTime = 200\<rparr>,
                           \<lparr>file_id = ''id1'', file_name = ''a.png'', uploadDateTime = 100\<rparr>])),
      exampleStorage)
   \<and> status (send 200 (Json [\<lparr>file_id = ''id2'', file_name = ''b.txt'', uploadDateTime = 200\<rparr>,
                           \<lparr>file_id = ''id1'', file_name = ''a.png'', uploadDateTime = 100\<rparr>])) = 200
   \<and> mset [\<lparr>file_id = ''id2'', file_name = ''b.txt'', uploadDateTime = 200\<rparr>,
            \<lparr>file_id = ''id1'', file_name = ''a.png'', uploadDateTime = 100\<rparr>]
       = mset (getFilesForGroup ''g1'' exampleStorage)"
proof -
  have ok: "status (send 200 (Json [\<lparr>file_id = ''id2'', file_name = ''b.txt'', uploadDateTime = 200\<rparr>,
                           \<lparr>file_id = ''id1'', file_name = ''a.png'', uploadDateTime = 100\<rparr>])) = 200"
    by (simp add: send_def)
  from list_sorted_newest_first [OF example_list ok]
  have "mset [\<lparr>file_id = ''id2'', file_name = ''b.txt'', uploadDateTime = 200\<rparr>,
            \<lparr>file_id = ''id1'', file_name = ''a.png'', uploadDateTime = 100\<rparr>]
       = mset (getFilesForGroup ''g1'' exampleStorage)"
    by (auto simp: send_def)
  with example_list ok show ?thesis by blast
qed

lemma example_accepts: "uploadMiddleware fileUpload =
    Inr \<lparr>req_file = Some [7], body_image = None, body_fileName = Some ''c.bin''\<rparr>"
  by (simp add: uploadMiddleware_def fileUpload_def text_values_def fieldSize_def)

lemma example_no_member: "getUserDetails ''g2'' ''user1'' exampleStorage = []"
  by (simp add: getUserDetails_def exampleStorage_def)

text \<open>
  C3, as amended: when the caller has passed the Authorization middleware and no user-detail
  entry is recorded for the caller in the group (as in every group without registered
  members), the list and download routes answer 403; the upload route answers 403 to every
  request that the multipart middleware accepts, and 500 to every request that it refuses,
  which happens before the membership test. None of the three writes to the storage.
\<close>

theorem no_member_forbidden:
  assumes "fakeAuthMiddleware authValue = Inr uid"
      and "getUserDetails groupId uid st = []"
  shows "get_files_route authValue groupId st = (Inr (sendStatus 403), st)
       \<and> get_file_route authValue groupId fileId st = (Inr (sendStatus 403), st)
       \<and> (\<forall>req. uploadMiddleware raw = Inr req \<longrightarrow>
             post_files_route fromBase64 newFileId now authValue groupId raw st = (Inr (sendStatus 403), st))
       \<and> (\<forall>r. uploadMiddleware raw = Inl r \<longrightarrow>
             post_files_route fromBase64 newFileId now authValue groupId raw st = (Inr defaultErrorHandler, st))
       \<and> snd (post_files_route fromBase64 newFileId now authValue groupId raw st) = st
       \<and> status (sendStatus 403) = 403 \<and> status defaultErrorHandler = 500"
proof -
  have up: "post_files_route fromBase64 newFileId now authValue groupId raw st = (Inr (sendStatus 403), st)"
    if "uploadMiddleware raw = Inr req" for req
    using assms that by (simp add: post_files_route_def post_files_handler_def)
  have refused: "post_files_route fromBase64 newFileId now authValue groupId raw st = (Inr defaultErrorHandler, st)"
    if "uploadMiddleware raw = Inl r" for r
    using assms that uploadMiddleware_Inl [OF that] by (simp add: post_files_route_def)
  have unchanged: "snd (post_files_route fromBase64 newFileId now authValue groupId raw st) = st"
    by (cases "uploadMiddleware raw") (simp_all add: up refused)
  have "get_files_route authValue groupId st = (Inr (sendStatus 403), st)"
    and "get_file_route authValue groupId fileId st = (Inr (sendStatus 403), st)"
    using assms by (simp_all add: get_files_route_def get_file_route_def)
  with up refused unchanged show ?thesis
    by (simp add: sendStatus_def defaultErrorHandler_def)
qed

theorem no_member_forbidden_witness:
  "fakeAuthMiddleware (Some ''user1'') = Inr ''user1''
   \<and> getUserDetails ''g2'' ''user1'' exampleStorage = []
   \<and> uploadMiddleware fileUpload = Inr \<lparr>req_file = Some [7], body_image = None, body_fileName = Some ''c.bin''\<rparr>
   \<and> get_files_route (Some ''user1'') ''g2'' exampleStorage = (Inr (sendStatus 403), exampleStorage)
   \<and> get_file_route (Some ''user1'') ''g2'' ''id1'' exampleStorage = (Inr (sendStatus 403), exampleStorage)
   \<and> post_files_route (map of_char) ''id3'' 300 (Some ''user1'') ''g2'' fileUpload exampleStorage
       = (Inr (sendStatus 403), exampleStorage)"
  using no_member_forbidden [OF fakeAuth_user1 example_no_member, of "''id1''" fileUpload "map of_char" "''id3''" 300]
    fakeAuth_user1 example_no_member example_accepts
  by simp

text \<open>
  C3, as stated, fails for the upload route: a request that passes the Authorization
  middleware and carries its file part under another field name than file is refused by the
  multipart middleware and answered 500, not 403, also in a group without members.
\<close>

theorem no_member_upload_refused_counterexample:
  "fakeAuthMiddleware (Some ''user1'') = Inr ''user1''
   \<and> getUserDetails ''g2'' ''user1'' exampleStorage = []
   \<and> post_files_route (map of_char) ''id3'' 300 (Some ''user1'') ''g2'' misnamedFile exampleStorage
       = (Inr defaultErrorHandler, exampleStorage)
   \<and> status defaultErrorHandler = 500"
  by (simp add: post_files_route_def fakeAuth_user1 example_no_member uploadMiddleware_def
      misnamedFile_def text_values_def fieldSize_def defaultErrorHandler_def)

lemma getFileMetadata_absent:
  assumes "\<forall>m. (g, m) \<in> set (fileMetadataTable st) \<longrightarrow> file_id m \<noteq> i"
  shows "getFileMetadata g i st = Inl FileServiceError"
proof (cases "getFileMetadata g i st")
  case (Inl e)
  then show ?thesis using getFileMetadata_Inl by blast
next
  case (Inr m)
  then have "file_id m = i \<and> (g, m) \<in> set (fileMetadataTable st)" by (rule getFileMetadata_id)
  with assms show ?thesis by blast
qed

text \<open>
  C4: a download request by a group member, on any storage that the routes have built up from
  the empty one. If the group has no metadata entry for the requested id the answer is 404. If
  the lookup returns an entry, the answer is 200 with the bytes of the blob stored under the
  id, as an attachment named as in the entry, and this name is the fileName field of an upload
  request of the history for this id and group. In both cases the handler ends with a
  response and never with an uncaught exception.
\<close>

theorem download_by_member:
  assumes "fakeAuthMiddleware authValue = Inr uid"
      and "getUserDetails groupId uid st \<noteq> []"
      and "st = serve_all fromBase64 history empty_storage"
  shows "((\<forall>m. (groupId, m) \<in> set (fileMetadataTable st) \<longrightarrow> file_id m \<noteq> fileId) \<longrightarrow>
            get_file_route authValue groupId fileId st = (Inr (sendStatus 404), st))
       \<and> (\<forall>m. getFileMetadata groupId fileId st = Inr m \<longrightarrow>
            (\<exists>buf. blobs st fileId = Some buf
               \<and> get_file_route authValue groupId fileId st =
                    (Inr \<lparr>status = 200,
                          headers = [ContentDisposition_attachment (file_name m),
                                     ContentType ''application/octet-stream''],
                          body = Binary buf\<rparr>, st))
            \<and> from_upload history (groupId, m))
       \<and> (\<exists>resp. get_file_route authValue groupId fileId st = (Inr resp, st))"
proof -
  have inv: "blob_for_metadata st"
    using assms(3) blob_for_metadata_empty blob_for_metadata_serve_all by simp
  have absent: "get_file_route authValue groupId fileId st = (Inr (sendStatus 404), st)"
    if "getFileMetadata groupId fileId st = Inl e" for e
  proof -
    from that have "getFileMetadata groupId fileId st = Inl FileServiceError"
      using getFileMetadata_Inl by blast
    with assms(1,2) show ?thesis by (simp add: get_file_route_def)
  qed
  have present: "\<exists>buf. blobs st fileId = Some buf
               \<and> get_file_route authValue groupId fileId st =
                    (Inr \<lparr>status = 200,
                          headers = [ContentDisposition_attachment (file_name m),
                                     ContentType ''application/octet-stream''],
                          body = Binary buf\<rparr>, st)"
      and origin: "from_upload history (groupId, m)"
    if "getFileMetadata groupId fileId st = Inr m" for m
  proof -
    from that have row: "file_id m = fileId" "(groupId, m) \<in> set (fileMetadataTable st)"
      using getFileMetadata_id by blast+
    with inv obtain buf where buf: "blobs st fileId = Some buf"
      by (auto simp: blob_for_metadata_def)
    with that assms(1,2) show "\<exists>buf. blobs st fileId = Some buf
               \<and> get_file_route authValue groupId fileId st =
                    (Inr \<lparr>status = 200,
                          headers = [ContentDisposition_attachment (file_name m),
                                     ContentType ''application/octet-stream''],
                          body = Binary buf\<rparr>, st)"
      by (simp add: get_file_route_def downloadFile_def)
    from row(2) assms(3) show "from_upload history (groupId, m)"
      using metadata_origin by blast
  qed
  have "\<exists>resp. get_file_route authValue groupId fileId st = (Inr resp, st)"
  proof (cases "getFileMetadata groupId fileId st")
    case (Inl e)
    then show ?thesis using absent by blast
  next
    case (Inr m)
    then show ?thesis using present by blast
  qed
  then show ?thesis
    using absent present origin getFileMetadata_absent by blast
qed

lemma example_member: "getUserDetails ''g1'' ''user1'' exampleStorage \<noteq> []"
  by (simp add: getUserDetails_def exampleStorage_def)

theorem download_by_member_witness:
  "fakeAuthMiddleware (Some ''user1'') = Inr ''user1''
   \<and> getUserDetails ''g1'' ''user1'' exampleStorage \<noteq> []
   \<and> exampleStorage = serve_all (map of_char) exampleHistory empty_storage
   \<and> get_file_route (Some ''user1'') ''g1'' ''id9'' exampleStorage = (Inr (sendStatus 404), exampleStorage)
   \<and> getFileMetadata ''g1'' ''id1'' exampleStorage =
        Inr \<lparr>file_id = ''id1'', file_name = ''a.png'', uploadDateTime = 100\<rparr>
   \<and> get_file_route (Some ''user1'') ''g1'' ''id1'' exampleStorage =
        (Inr \<lparr>status = 200,
              headers = [ContentDisposition_attachment ''a.png'', ContentType ''application/octet-stream''],
              body = Binary [1, 2, 3]\<rparr>, exampleStorage)"
proof -
  have h: "exampleStorage = serve_all (map of_char) exampleHistory empty_storage"
    by (simp add: exampleStorage_history)
  have none: "\<forall>m. (''g1'', m) \<in> set (fileMetadataTable exampleStorage) \<longrightarrow> file_id m \<noteq> ''id9''"
    by (simp add: exampleStorage_def)
  have some: "getFileMetadata ''g1'' ''id1'' exampleStorage =
        Inr \<lparr>file_id = ''id1'', file_name = ''a.png'', uploadDateTime = 100\<rparr>"
    by (simp add: getFileMetadata_def exampleStorage_def)
  have b: "blobs exampleStorage ''id1'' = Some [1, 2, 3]"
    by (simp add: exampleStorage_def)
  from download_by_member [OF fakeAuth_user1 example_member h, of "''id9''"] none
  have r1: "get_file_route (Some ''user1'') ''g1'' ''id9'' exampleStorage = (Inr (sendStatus 404), exampleStorage)"
    by blast
  from download_by_member [OF fakeAuth_user1 example_member h, of "''id1''"] some b
  have r2: "get_file_route (Some ''user1'') ''g1'' ''id1'' exampleStorage =
        (Inr \<lparr>status = 200,
              headers = [ContentDisposition_attachment ''a.png'', ContentType ''application/octet-stream''],
              body = Binary [1, 2, 3]\<rparr>, exampleStorage)"
    by auto
  show ?thesis using fakeAuth_user1 example_member h r1 r2 some by blast
qed

lemma post_files_204:
  assumes "post_files_route fromBase64 newFileId now authValue groupId raw st = (Inr resp, st1)"
      and "status resp = 204"
  shows "\<exists>uid name bytes.
           fakeAuthMiddleware authValue = Inr uid \<and> getUserDetails groupId uid st \<noteq> []
         \<and> fileName_field raw = Some name
         \<and> (file_parts raw = [(''file'', bytes)]
              \<or> file_parts raw = [] \<and> (\<exists>image. image_field raw = Some image \<and> bytes = fromBase64 image))
         \<and> st1 = addFileMetadata groupId \<lparr>file_id = newFileId, file_name = name, uploadDateTime = now\<rparr>
                    (uploadFile newFileId bytes st)"
proof -
  from assms obtain uid where auth: "fakeAuthMiddleware authValue = Inr uid"
    by (cases "fakeAuthMiddleware authValue")
       (auto simp: post_files_route_def sendStatus_def dest!: fakeAuth_Inl)
  from assms auth obtain req where acc: "uploadMiddleware raw = Inr req"
    by (cases "uploadMiddleware raw")
       (auto simp: post_files_route_def defaultErrorHandler_def dest!: uploadMiddleware_Inl)
  from assms auth acc
  have h: "post_files_handler fromBase64 newFileId now uid groupId req st = (Inr resp, st1)"
    by (simp add: post_files_route_def)
  from h assms(2) have
    "getUserDetails groupId uid st \<noteq> [] \<and>
     (\<exists>name bytes. body_fileName req = Some name
        \<and> (req_file req = Some bytes
            \<or> req_file req = None \<and> (\<exists>image. body_image req = Some image \<and> bytes = fromBase64 image))
        \<and> st1 = addFileMetadata groupId \<lparr>file_id = newFileId, file_name = name, uploadDateTime = now\<rparr>
                    (uploadFile newFileId bytes st))"
    by (auto simp: post_files_handler_def Let_def sendStatus_def send_def
        split: option.splits if_splits)
  with uploadMiddleware_Inr [OF acc] auth show ?thesis by auto
qed

text \<open>
  C5, as amended: an upload request by a group member that the multipart middleware accepts
  is answered 400 exactly when neither a file nor an image is supplied, or when the fileName
  field is missing; otherwise it is answered 204, and then the blob and its metadata row have
  been written. A request that the middleware refuses (a text field over 5 MiB, a file part
  under another field name than file, more than one file part) is answered 500. Only a
  request answered 204 writes to the storage.
\<close>

theorem upload_status:
  assumes "fakeAuthMiddleware authValue = Inr uid"
      and "getUserDetails groupId uid st \<noteq> []"
  shows "(\<forall>r. uploadMiddleware raw = Inl r \<longrightarrow>
            post_files_route fromBase64 newFileId now authValue groupId raw st = (Inr defaultErrorHandler, st))
       \<and> (\<forall>req. uploadMiddleware raw = Inr req \<longrightarrow>
            (\<exists>resp st'. post_files_route fromBase64 newFileId now authValue groupId raw st = (Inr resp, st')
               \<and> (status resp = 400 \<or> status resp = 204)
               \<and> (status resp = 400 \<longleftrightarrow>
                     (file_parts raw = [] \<and> image_field raw = None) \<or> fileName_field raw = None)
               \<and> (status resp = 400 \<longrightarrow> st' = st)
               \<and> (status resp = 204 \<longrightarrow>
                     (\<exists>name bytes. fileName_field raw = Some name
                        \<and> st' = addFileMetadata groupId
                                  \<lparr>file_id = newFileId, file_name = name, uploadDateTime = now\<rparr>
                                  (uploadFile newFileId bytes st)))))
       \<and> status defaultErrorHandler = 500"
proof -
  have refused: "post_files_route fromBase64 newFileId now authValue groupId raw st = (Inr defaultErrorHandler, st)"
    if "uploadMiddleware raw = Inl r" for r
    using assms that uploadMiddleware_Inl [OF that] by (simp add: post_files_route_def)
  have accepted: "\<exists>resp st'. post_files_route fromBase64 newFileId now authValue groupId raw st = (Inr resp, st')
               \<and> (status resp = 400 \<or> status resp = 204)
               \<and> (status resp = 400 \<longleftrightarrow>
                     (file_parts raw = [] \<and> image_field raw = None) \<or> fileName_field raw = None)
               \<and> (status resp = 400 \<longrightarrow> st' = st)
               \<and> (status resp = 204 \<longrightarrow>
                     (\<exists>name bytes. fileName_field raw = Some name
                        \<and> st' = addFileMetadata groupId
                                  \<lparr>file_id = newFileId, file_name = name, uploadDateTime = now\<rparr>
                                  (uploadFile newFileId bytes st)))"
    if "uploadMiddleware raw = Inr req" for req
  proof -
    from uploadMiddleware_Inr [OF that]
    have f: "body_image req = image_field raw" "body_fileName req = fileName_field raw"
         "req_file req = None \<longleftrightarrow> file_parts raw = []"
      by auto
    have "post_files_route fromBase64 newFileId now authValue groupId raw st =
            post_files_handler fromBase64 newFileId now uid groupId req st"
      using assms(1) that by (simp add: post_files_route_def)
    with assms(2) f
    have "\<exists>resp st'. post_files_route fromBase64 newFileId now authValue groupId raw st = (Inr resp, st')
               \<and> (status resp = 400 \<or> status resp = 204)
               \<and> (status resp = 400 \<longleftrightarrow>
                     (file_parts raw = [] \<and> image_field raw = None) \<or> fileName_field raw = None)
               \<and> (status resp = 400 \<longrightarrow> st' = st)"
      by (auto simp: post_files_handler_def Let_def sendStatus_def send_def split: option.splits)
    then obtain resp st' where
      r: "post_files_route fromBase64 newFileId now authValue groupId raw st = (Inr resp, st')" and
      s: "status resp = 400 \<or> status resp = 204"
         "status resp = 400 \<longleftrightarrow> (file_parts raw = [] \<and> image_field raw = None) \<or> fileName_field raw = None"
         "status resp = 400 \<longrightarrow> st' = st"
      by (elim exE conjE)
    have w: "status resp = 204 \<longrightarrow>
               (\<exists>name bytes. fileName_field raw = Some name
                        \<and> st' = addFileMetadata groupId
                                  \<lparr>file_id = newFileId, file_name = name, uploadDateTime = now\<rparr>
                                  (uploadFile newFileId bytes st))"
    proof
      assume "status resp = 204"
      from post_files_204 [OF r this] show "\<exists>name bytes. fileName_field raw = Some name
                        \<and> st' = addFileMetadata groupId
                                  \<lparr>file_id = newFileId, file_name = name, uploadDateTime = now\<rparr>
                                  (uploadFile newFileId bytes st)"
        by blast
    qed
    show ?thesis
      apply (rule exI [of _ resp])
      apply (rule exI [of _ st'])
      using r s w by simp
  qed
  from refused accepted show ?thesis by (simp add: defaultErrorHandler_def)
qed

theorem upload_status_witness:
  "fakeAuthMiddleware (Some ''user1'') = Inr ''user1''
   \<and> getUserDetails ''g1'' ''user1'' exampleStorage \<noteq> []
   \<and> uploadMiddleware fileUpload = Inr \<lparr>req_file = Some [7], body_image = None, body_fileName = Some ''c.bin''\<rparr>
   \<and> (\<exists>resp st'. post_files_route (map of_char) ''id3'' 300 (Some ''user1'') ''g1'' fileUpload exampleStorage
                    = (Inr resp, st')
        \<and> status resp = 204)"
proof -
  have "file_parts fileUpload \<noteq> []" "fileName_field fileUpload \<noteq> None"
    by (simp_all add: fileUpload_def)
  with upload_status [OF fakeAuth_user1 example_member, of fileUpload "map of_char" "''id3''" 300]
    example_accepts
  have "\<exists>resp st'. post_files_route (map of_char) ''id3'' 300 (Some ''user1'') ''g1'' fileUpload exampleStorage
                    = (Inr resp, st')
        \<and> status resp = 204"
    by auto
  with fakeAuth_user1 example_member example_accepts show ?thesis by blast
qed

text \<open>
  C5, as stated, fails: a member's request that carries a raw file but no fileName field
  passes the multipart middleware and is answered 400 ("Invalid file name").
\<close>

theorem upload_file_without_name_counterexample:
  "getUserDetails ''g1'' ''user1'' exampleStorage \<noteq> []
   \<and> uploadMiddleware fileWithoutName = Inr \<lparr>req_file = Some [7], body_image = None, body_fileName = None\<rparr>
   \<and> post_files_route (map of_char) ''id3'' 300 (Some ''user1'') ''g1'' fileWithoutName exampleStorage
       = (Inr (send 400 (Text ''Invalid file name'')), exampleStorage)
   \<and> status (send 400 (Text ''Invalid file name'')) = 400"
  by (simp add: post_files_route_def post_files_handler_def fakeAuth_user1 example_member send_def
      uploadMiddleware_def fileWithoutName_def text_values_def fieldSize_def)

lemma get_file_route_200:
  assumes "get_file_route authValue groupId fileId st = (Inr resp, st')" and "status resp = 200"
  shows "\<exists>buf. blobs st fileId = Some buf \<and> body resp = Binary buf"
  using assms
  by (auto simp: get_file_route_def downloadFile_def sendStatus_def
      dest!: fakeAuth_Inl split: sum.splits option.splits if_splits service_error.splits)

lemma getFileMetadata_present:
  assumes "(g, m) \<in> set (fileMetadataTable st)" and "file_id m = i"
  shows "\<exists>m'. getFileMetadata g i st = Inr m'"
proof (cases "find (\<lambda>row. fst row = g \<and> file_id (snd row) = i) (fileMetadataTable st)")
  case None
  with assms show ?thesis by (auto simp: find_None_iff)
next
  case (Some row)
  then show ?thesis by (simp add: getFileMetadata_def)
qed

text \<open>
  C2: after an upload has been answered 204 under a new id, and whatever requests follow as
  long as no later upload is given the same id (uuidv4 does not repeat), every download of
  that id that is answered 200 carries exactly the bytes of the upload (the buffer of the
  multipart file, or else the base64-decoded image), and the uploader's own download of the
  id in the group is so answered.
\<close>

theorem upload_download_roundtrip:
  assumes up: "post_files_route fromBase64 newFileId now authValue groupId raw st = (Inr resp, st1)"
      and ok: "status resp = 204"
      and fresh: "newFileId \<notin> set (upload_ids later)"
      and st2: "st2 = serve_all fromBase64 later st1"
  shows "\<exists>bytes.
           (file_parts raw = [(''file'', bytes)]
              \<or> file_parts raw = [] \<and> (\<exists>image. image_field raw = Some image \<and> bytes = fromBase64 image))
         \<and> (\<forall>authValue' groupId' resp' st3.
               get_file_route authValue' groupId' newFileId st2 = (Inr resp', st3) \<and> status resp' = 200
                 \<longrightarrow> body resp' = Binary bytes)
         \<and> (\<exists>resp'. get_file_route authValue groupId newFileId st2 = (Inr resp', st2)
               \<and> status resp' = 200 \<and> body resp' = Binary bytes)"
proof -
  from post_files_204 [OF up ok] obtain uid name bytes where
    auth: "fakeAuthMiddleware authValue = Inr uid" and
    member: "getUserDetails groupId uid st \<noteq> []" and
    sub: "file_parts raw = [(''file'', bytes)]
              \<or> file_parts raw = [] \<and> (\<exists>image. image_field raw = Some image \<and> bytes = fromBase64 image)" and
    st1: "st1 = addFileMetadata groupId \<lparr>file_id = newFileId, file_name = name, uploadDateTime = now\<rparr>
                    (uploadFile newFileId bytes st)"
    by blast
  have "blobs st1 newFileId = Some bytes"
    by (simp add: st1 addFileMetadata_def uploadFile_def)
  with fresh st2 have blob: "blobs st2 newFileId = Some bytes"
    by (simp add: blobs_serve_all_other)
  have any: "body resp' = Binary bytes"
    if "get_file_route authValue' groupId' newFileId st2 = (Inr resp', st3)" "status resp' = 200"
    for authValue' groupId' resp' st3
    using get_file_route_200 [OF that] blob by auto
  have "(groupId, uid) \<in> set (userDetailsTable st1)"
    using member by (simp add: st1 member_iff addFileMetadata_def uploadFile_def)
  then have member2: "getUserDetails groupId uid st2 \<noteq> []"
    using users_serve_all_mono [of st1 fromBase64 later] st2 by (auto simp: member_iff)
  have "(groupId, \<lparr>file_id = newFileId, file_name = name, uploadDateTime = now\<rparr>) \<in> set (fileMetadataTable st1)"
    by (simp add: st1 addFileMetadata_def uploadFile_def)
  moreover obtain more where "fileMetadataTable st2 = fileMetadataTable st1 @ more"
    using metadata_serve_all_prefix st2 by blast
  ultimately have "(groupId, \<lparr>file_id = newFileId, file_name = name, uploadDateTime = now\<rparr>) \<in> set (fileMetadataTable st2)"
    by simp
  then obtain m' where meta: "getFileMetadata groupId newFileId st2 = Inr m'"
    using getFileMetadata_present by fastforce
  have "get_file_route authValue groupId newFileId st2 =
          (Inr \<lparr>status = 200,
                headers = [ContentDisposition_attachment (file_name m'),
                           ContentType ''application/octet-stream''],
                body = Binary bytes\<rparr>, st2)"
    using auth member2 meta blob by (simp add: get_file_route_def downloadFile_def)
  then have own: "\<exists>resp'. get_file_route authValue groupId newFileId st2 = (Inr resp', st2)
               \<and> status resp' = 200 \<and> body resp' = Binary bytes"
    by simp
  from sub any own show ?thesis by blast
qed

lemma example_upload:
  "post_files_route (map of_char) ''id1'' 100 (Some ''user1'') ''g1''
        \<lparr>file_parts = [(''file'', [1, 2, 3])], image_field = None, fileName_field = Some ''a.png'',
         other_fields = [(''groupId'', ''g1'')]\<rparr>
        (serve_all (map of_char) (take 1 exampleHistory) empty_storage)
     = (Inr (sendStatus 204), serve_all (map of_char) (take 2 exampleHistory) empty_storage)"
  by (simp add: serve_all_def exampleHistory_def empty_storage_def
      post_user_route_def post_files_route_def post_files_handler_def uploadMiddleware_def
      text_values_def fieldSize_def fakeAuth_user1 getUserDetails_def
      addUserDetails_def addFileMetadata_def uploadFile_def)

lemma example_later:
  "exampleStorage = serve_all (map of_char) (drop 2 exampleHistory)
                      (serve_all (map of_char) (take 2 exampleHistory) empty_storage)"
  by (simp add: serve_all_def exampleHistory_def exampleStorage_def empty_storage_def
      post_user_route_def post_files_route_def post_files_handler_def uploadMiddleware_def
      text_values_def fieldSize_def fakeAuth_user1 getUserDetails_def
      addUserDetails_def addFileMetadata_def uploadFile_def)

theorem upload_download_roundtrip_witness:
  "post_files_route (map of_char) ''id1'' 100 (Some ''user1'') ''g1''
        \<lparr>file_parts = [(''file'', [1, 2, 3])], image_field = None, fileName_field = Some ''a.png'',
         other_fields = [(''groupId'', ''g1'')]\<rparr>
        (serve_all (map of_char) (take 1 exampleHistory) empty_storage)
     = (Inr (sendStatus 204), serve_all (map of_char) (take 2 exampleHistory) empty_storage)
   \<and> status (sendStatus 204) = 204
   \<and> ''id1'' \<notin> set (upload_ids (drop 2 exampleHistory))
   \<and> exampleStorage = serve_all (map of_char) (drop 2 exampleHistory)
                      (serve_all (map of_char) (take 2 exampleHistory) empty_storage)
   \<and> (\<exists>resp'. get_file_route (Some ''user1'') ''g1'' ''id1'' exampleStorage = (Inr resp', exampleStorage)
               \<and> status resp' = 200 \<and> body resp' = Binary [1, 2, 3])"
proof -
  have ok: "status (sendStatus 204) = 204" by (simp add: sendStatus_def)
  have fresh: "''id1'' \<notin> set (upload_ids (drop 2 exampleHistory))"
    by (simp add: exampleHistory_def)
  from upload_download_roundtrip [OF example_upload ok fresh example_later]
  have "\<exists>resp'. get_file_route (Some ''user1'') ''g1'' ''id1'' exampleStorage = (Inr resp', exampleStorage)
               \<and> status resp' = 200 \<and> body resp' = Binary [1, 2, 3]"
    by auto
  with example_upload ok fresh example_later show ?thesis by blast
qed

section \<open>Properties of the client's side effects\<close>


lemma fold_take_Suc:
  "i < length xs \<Longrightarrow> fold f (take (Suc i) xs) r = f (xs ! i) (fold f (take i xs) r)"
  by (simp add: take_Suc_conv_app_nth)

lemma onCallAdded_reject:
  "call (calls (fst r)) \<noteq> None \<Longrightarrow> isIncoming c \<Longrightarrow>
     onCallAdded reduce c r = (fst r, snd r @ [CallReject c])"
  by (simp add: onCallAdded_def perform_def)

lemma trackedCalls_le: "length (trackedCalls s) \<le> 1"
  by (simp add: trackedCalls_def split: option.splits)

lemma onCallAdded_accept:
  "\<not> (call (calls (fst r)) \<noteq> None \<and> isIncoming c) \<Longrightarrow>
     onCallAdded reduce c r =
       (reduce (setCallState (callState c))
          (reduce (setParticipants (remoteParticipants c)) (reduce (callAdded c) (fst r))),
        snd r @ Dispatched (callAdded c) #
          [CallOn c ''callStateChanged'', CallOn c ''isScreenSharingOnChanged'',
           CallOn c ''remoteParticipantsUpdated'']
          @ concat (map subscribeToParticipant (remoteParticipants c))
          @ [Dispatched (setParticipants (remoteParticipants c)), Dispatched (setCallState (callState c))])"
  by (simp add: onCallAdded_def dispatch_def perform_def Let_def)

text \<open>
  C1: while the callsUpdated handler works through any sequence of added calls, the store
  tracks at most one call before and after each of them. A call that arrives with isIncoming
  set while the store tracks a call is rejected: handling it leaves the store as it is,
  dispatches nothing and only calls reject() on it. Every other call is dispatched to the
  store with callAdded.
\<close>

theorem single_tracked_call:
  assumes "i < length added"
  shows "length (trackedCalls (fst (callsUpdated reduce (take i added) [] r0))) \<le> 1
       \<and> length (trackedCalls (fst (callsUpdated reduce (take (Suc i) added) [] r0))) \<le> 1
       \<and> (call (calls (fst (callsUpdated reduce (take i added) [] r0))) \<noteq> None \<and> isIncoming (added ! i)
            \<longrightarrow> callsUpdated reduce (take (Suc i) added) [] r0 =
                   (fst (callsUpdated reduce (take i added) [] r0),
                    snd (callsUpdated reduce (take i added) [] r0) @ [CallReject (added ! i)]))
       \<and> (\<not> (call (calls (fst (callsUpdated reduce (take i added) [] r0))) \<noteq> None \<and> isIncoming (added ! i))
            \<longrightarrow> (\<exists>rest. snd (callsUpdated reduce (take (Suc i) added) [] r0) =
                          snd (callsUpdated reduce (take i added) [] r0)
                            @ Dispatched (callAdded (added ! i)) # rest))"
proof -
  let ?before = "callsUpdated reduce (take i added) [] r0"
  let ?after = "callsUpdated reduce (take (Suc i) added) [] r0"
  have step: "?after = onCallAdded reduce (added ! i) ?before"
    unfolding callsUpdated_def using assms by (simp add: fold_take_Suc)
  have one_before: "length (trackedCalls (fst ?before)) \<le> 1" by (rule trackedCalls_le)
  have one_after: "length (trackedCalls (fst ?after)) \<le> 1" by (rule trackedCalls_le)
  have rejected: "?after = (fst ?before, snd ?before @ [CallReject (added ! i)])"
    if "call (calls (fst ?before)) \<noteq> None" "isIncoming (added ! i)"
    unfolding step using that by (rule onCallAdded_reject)
  have accepted: "\<exists>rest. snd ?after = snd ?before @ Dispatched (callAdded (added ! i)) # rest"
    if "\<not> (call (calls (fst ?before)) \<noteq> None \<and> isIncoming (added ! i))"
    unfolding step using onCallAdded_accept [OF that] by simp
  from one_before one_after rejected accepted show ?thesis by blast
qed

lemma example_first_call:
  "callsUpdated rootReducer (take 1 [exampleCall, incomingCall]) [] (initialState, []) =
     (inCallState\<lparr>calls := (calls inCallState)\<lparr>storedCallState := ''Connecting'',
                      storedParticipants := [\<lparr>participant_identifier = ''user2''\<rparr>]\<rparr>\<rparr>,
      [Dispatched (callAdded exampleCall),
       CallOn exampleCall ''callStateChanged'',
       CallOn exampleCall ''isScreenSharingOnChanged'',
       CallOn exampleCall ''remoteParticipantsUpdated'',
       ParticipantOn \<lparr>participant_identifier = ''user2''\<rparr> ''participantStateChanged'',
       ParticipantOn \<lparr>participant_identifier = ''user2''\<rparr> ''isSpeakingChanged'',
       ParticipantOn \<lparr>participant_identifier = ''user2''\<rparr> ''videoStreamsUpdated'',
       Dispatched (setParticipants [\<lparr>participant_identifier = ''user2''\<rparr>]),
       Dispatched (setCallState ''Connecting'')])"
  by (simp add: callsUpdated_def onCallAdded_def dispatch_def perform_def subscribeToParticipant_def
      initialState_def inCallState_def exampleCall_def Let_def)

theorem single_tracked_call_witness:
  "(1::nat) < length [exampleCall, incomingCall]
   \<and> call (calls (fst (callsUpdated rootReducer (take 1 [exampleCall, incomingCall]) [] (initialState, []))))
       = Some exampleCall
   \<and> isIncoming ([exampleCall, incomingCall] ! 1)
   \<and> callsUpdated rootReducer (take (Suc 1) [exampleCall, incomingCall]) [] (initialState, []) =
        (fst (callsUpdated rootReducer (take 1 [exampleCall, incomingCall]) [] (initialState, [])),
         snd (callsUpdated rootReducer (take 1 [exampleCall, incomingCall]) [] (initialState, []))
           @ [CallReject incomingCall])"
proof -
  have l: "(1::nat) < length [exampleCall, incomingCall]" by simp
  have c: "call (calls (fst (callsUpdated rootReducer (take 1 [exampleCall, incomingCall]) [] (initialState, []))))
       = Some exampleCall"
    unfolding example_first_call by (simp add: inCallState_def)
  have inc: "isIncoming ([exampleCall, incomingCall] ! 1)" by (simp add: incomingCall_def)
  from single_tracked_call [OF l, of rootReducer "(initialState, [])"] c inc
  have "callsUpdated rootReducer (take (Suc 1) [exampleCall, incomingCall]) [] (initialState, []) =
        (fst (callsUpdated rootReducer (take 1 [exampleCall, incomingCall]) [] (initialState, [])),
         snd (callsUpdated rootReducer (take 1 [exampleCall, incomingCall]) [] (initialState, []))
           @ [CallReject incomingCall])"
    by simp
  with l c inc show ?thesis by blast
qed

text \<open>
  C7: for setMicrophone and for setShareUnshareScreen alike: if the SDK method that the toggle
  calls rejects, the store is unchanged and nothing is dispatched; whenever the toggle
  dispatches, it dispatches its one flag action as the last step, after the SDK method has
  resolved; and without a dispatch the store is unchanged.
\<close>

theorem toggles_update_after_success:
  "(\<forall>c m. CallMethod c m \<in> set (snd (setMicrophone v reduce resolves state)) \<and> \<not> resolves m \<longrightarrow>
       fst (setMicrophone v reduce resolves state) = state
     \<and> (\<forall>a. Dispatched a \<notin> set (snd (setMicrophone v reduce resolves state))))
   \<and> (\<forall>a. Dispatched a \<in> set (snd (setMicrophone v reduce resolves state)) \<longrightarrow>
         a = setMic v
       \<and> (\<exists>c m. resolves m \<and> snd (setMicrophone v reduce resolves state) = [CallMethod c m, Dispatched a]))
   \<and> ((\<forall>a. Dispatched a \<notin> set (snd (setMicrophone v reduce resolves state))) \<longrightarrow>
         fst (setMicrophone v reduce resolves state) = state)
   \<and> (\<forall>c m. CallMethod c m \<in> set (snd (setShareUnshareScreen v reduce resolves state)) \<and> \<not> resolves m \<longrightarrow>
       fst (setShareUnshareScreen v reduce resolves state) = state
     \<and> (\<forall>a. Dispatched a \<notin> set (snd (setShareUnshareScreen v reduce resolves state))))
   \<and> (\<forall>a. Dispatched a \<in> set (snd (setShareUnshareScreen v reduce resolves state)) \<longrightarrow>
         a = setShareScreen v
       \<and> (\<exists>c m. resolves m \<and> snd (setShareUnshareScreen v reduce resolves state) = [CallMethod c m, Dispatched a]))
   \<and> ((\<forall>a. Dispatched a \<notin> set (snd (setShareUnshareScreen v reduce resolves state))) \<longrightarrow>
         fst (setShareUnshareScreen v reduce resolves state) = state)"
  by (auto simp: setMicrophone_def setShareUnshareScreen_def Let_def split: option.splits)

lemma example_mic_rejected:
  "setMicrophone True rootReducer ((=) mute) (Some inCallState) =
     (Some inCallState, [CallMethod exampleCall unmute, ConsoleError])"
  by (simp add: setMicrophone_def inCallState_def initialState_def)

lemma example_share_rejected:
  "setShareUnshareScreen True rootReducer ((=) stopScreenSharing) (Some inCallState) =
     (Some inCallState, [CallMethod exampleCall startScreenSharing, ConsoleError])"
  by (simp add: setShareUnshareScreen_def inCallState_def initialState_def)

theorem toggles_update_after_success_witness:
  "CallMethod exampleCall unmute \<in> set (snd (setMicrophone True rootReducer ((=) mute) (Some inCallState)))
   \<and> \<not> (mute = unmute)
   \<and> fst (setMicrophone True rootReducer ((=) mute) (Some inCallState)) = Some inCallState
   \<and> CallMethod exampleCall startScreenSharing
        \<in> set (snd (setShareUnshareScreen True rootReducer ((=) stopScreenSharing) (Some inCallState)))
   \<and> \<not> (stopScreenSharing = startScreenSharing)
   \<and> fst (setShareUnshareScreen True rootReducer ((=) stopScreenSharing) (Some inCallState)) = Some inCallState"
proof -
  have m: "CallMethod exampleCall unmute \<in> set (snd (setMicrophone True rootReducer ((=) mute) (Some inCallState)))"
    by (simp add: example_mic_rejected)
  have s: "CallMethod exampleCall startScreenSharing
        \<in> set (snd (setShareUnshareScreen True rootReducer ((=) stopScreenSharing) (Some inCallState)))"
    by (simp add: example_share_rejected)
  have nm: "\<not> (mute = unmute)" and ns: "\<not> (stopScreenSharing = startScreenSharing)" by simp_all
  from toggles_update_after_success [of True rootReducer "(=) mute" "Some inCallState"] m nm
  have 1: "fst (setMicrophone True rootReducer ((=) mute) (Some inCallState)) = Some inCallState"
    by blast
  from toggles_update_after_success [of True rootReducer "(=) stopScreenSharing" "Some inCallState"] s ns
  have 2: "fst (setShareUnshareScreen True rootReducer ((=) stopScreenSharing) (Some inCallState)) = Some inCallState"
    by blast
  from m nm 1 s ns 2 show ?thesis by blast
qed

text \<open>
  C8: an audio-device refresh reads the selection from the store after having dispatched the
  new list. If no microphone is selected and the list is not empty, the first microphone of the
  list is dispatched as the selection, once, and applied to the device manager. If a
  microphone is selected and the membership test does not find it in the list, that same
  device is applied to the device manager again and no selection is dispatched.
\<close>

theorem audio_refresh_selection:
  "(audioDeviceInfo (devices (reduce (setAudioDeviceList microphoneList) st)) = None \<and> microphoneList \<noteq> [] \<longrightarrow>
      updateAudioDevices reduce inList microphoneList st =
        (reduce (setAudioDeviceInfo (Some (hd microphoneList))) (reduce (setAudioDeviceList microphoneList) st),
         [Dispatched (setAudioDeviceList microphoneList),
          Dispatched (setAudioDeviceInfo (Some (hd microphoneList))),
          DeviceManager_setMicrophone (hd microphoneList)]))
   \<and> (\<forall>selected. audioDeviceInfo (devices (reduce (setAudioDeviceList microphoneList) st)) = Some selected
         \<and> \<not> inList selected microphoneList \<longrightarrow>
      updateAudioDevices reduce inList microphoneList st =
        (reduce (setAudioDeviceList microphoneList) st,
         [Dispatched (setAudioDeviceList microphoneList), DeviceManager_setMicrophone selected]))"
  by (auto simp: updateAudioDevices_def dispatch_def perform_def index_js_def Let_def hd_conv_nth)

theorem audio_refresh_selection_witness:
  "audioDeviceInfo (devices (rootReducer (setAudioDeviceList [exampleMic, otherMic]) initialState)) = None
   \<and> [exampleMic, otherMic] \<noteq> []
   \<and> audioDeviceInfo (devices (fst (updateAudioDevices rootReducer (\<lambda>d ds. d \<in> set ds)
                                     [exampleMic, otherMic] initialState))) = Some exampleMic
   \<and> audioDeviceInfo (devices (rootReducer (setAudioDeviceList [otherMic])
        (initialState\<lparr>devices := (devices initialState)\<lparr>audioDeviceInfo := Some exampleMic\<rparr>\<rparr>))) = Some exampleMic
   \<and> \<not> (exampleMic \<in> set [otherMic])
   \<and> snd (updateAudioDevices rootReducer (\<lambda>d ds. d \<in> set ds) [otherMic]
        (initialState\<lparr>devices := (devices initialState)\<lparr>audioDeviceInfo := Some exampleMic\<rparr>\<rparr>))
       = [Dispatched (setAudioDeviceList [otherMic]), DeviceManager_setMicrophone exampleMic]"
proof -
  let ?sel = "initialState\<lparr>devices := (devices initialState)\<lparr>audioDeviceInfo := Some exampleMic\<rparr>\<rparr>"
  have none: "audioDeviceInfo (devices (rootReducer (setAudioDeviceList [exampleMic, otherMic]) initialState)) = None"
    by (simp add: initialState_def)
  have ne: "[exampleMic, otherMic] \<noteq> []" by simp
  have some: "audioDeviceInfo (devices (rootReducer (setAudioDeviceList [otherMic]) ?sel)) = Some exampleMic"
    by simp
  have absent: "\<not> (exampleMic \<in> set [otherMic])"
    by (simp add: exampleMic_def otherMic_def)
  from audio_refresh_selection [of rootReducer "[exampleMic, otherMic]" initialState "\<lambda>d ds. d \<in> set ds"] none ne
  have 1: "audioDeviceInfo (devices (fst (updateAudioDevices rootReducer (\<lambda>d ds. d \<in> set ds)
                                     [exampleMic, otherMic] initialState))) = Some exampleMic"
    by simp
  from audio_refresh_selection [of rootReducer "[otherMic]" ?sel "\<lambda>d ds. d \<in> set ds"] some absent
  have 2: "snd (updateAudioDevices rootReducer (\<lambda>d ds. d \<in> set ds) [otherMic] ?sel)
       = [Dispatched (setAudioDeviceList [otherMic]), DeviceManager_setMicrophone exampleMic]"
    by simp
  from none ne 1 some absent 2 show ?thesis by blast
qed

text \<open>
  C9: a video-device refresh that finds no video device selected dispatches element 0 of the
  camera list as the selection without looking at the length of the list: the first camera
  when there is one, and undefined when the list is empty. The audio refresh on an empty list
  dispatches no selection.
\<close>

theorem video_refresh_unguarded:
  assumes "videoDeviceInfo (devices (reduce (setVideoDeviceList cameraList) st)) = None"
  shows "updateVideoDevices reduce inList cameraList st =
           (reduce (setVideoDeviceInfo (index_js cameraList 0)) (reduce (setVideoDeviceList cameraList) st),
            [Dispatched (setVideoDeviceList cameraList), Dispatched (setVideoDeviceInfo (index_js cameraList 0))])
       \<and> (cameraList = [] \<longrightarrow> index_js cameraList 0 = None)
       \<and> (cameraList \<noteq> [] \<longrightarrow> index_js cameraList 0 = Some (hd cameraList))
       \<and> (audioDeviceInfo (devices (reduce (setAudioDeviceList []) st)) = None \<longrightarrow>
            updateAudioDevices reduce inList' [] st =
              (reduce (setAudioDeviceList []) st, [Dispatched (setAudioDeviceList [])]))"
  using assms
  by (auto simp: updateVideoDevices_def updateAudioDevices_def dispatch_def perform_def index_js_def
      Let_def hd_conv_nth)

theorem video_refresh_unguarded_witness:
  "videoDeviceInfo (devices (rootReducer (setVideoDeviceList []) initialState)) = None
   \<and> updateVideoDevices rootReducer (\<lambda>d ds. d \<in> set ds) [] initialState =
       (rootReducer (setVideoDeviceInfo None) (rootReducer (setVideoDeviceList []) initialState),
        [Dispatched (setVideoDeviceList []), Dispatched (setVideoDeviceInfo None)])
   \<and> updateAudioDevices rootReducer (\<lambda>d ds. d \<in> set ds) [] initialState =
       (rootReducer (setAudioDeviceList []) initialState, [Dispatched (setAudioDeviceList [])])"
proof -
  have v: "videoDeviceInfo (devices (rootReducer (setVideoDeviceList []) initialState)) = None"
    by (simp add: initialState_def)
  have a: "audioDeviceInfo (devices (rootReducer (setAudioDeviceList []) initialState)) = None"
    by (simp add: initialState_def)
  from video_refresh_unguarded [where reduce = rootReducer and cameraList = "[]" and st = initialState
      and inList = "\<lambda>d ds. d \<in> set ds" and inList' = "\<lambda>d ds. d \<in> set ds"] a v
  show ?thesis by (simp add: index_js_def)
qed

text \<open>
  C10, as amended: getFile with a defined userId first dispatches the downloading flag of the
  file as true and then starts the request. If the request (or the reading of its body)
  rejects, getFile ends there as a rejected promise: the store is the one with the flag set
  and nothing more is dispatched, so that invocation leaves the file marked as downloading. If
  both resolve, getFile dispatches the blob URL and then the flag as false, and ends fulfilled.
\<close>

theorem getFile_downloading_flag:
  assumes "userId (sdk state) = Some uid"
  shows "(fetch (''/groups/'' @ group (calls state) @ ''/files/'' @ fileId) uid = NetworkError
          \<or> fetch (''/groups/'' @ group (calls state) @ ''/files/'' @ fileId) uid = Response None \<longrightarrow>
            getFile fileId reduce fetch createObjectURL state =
              (rejected,
               (reduce (setFileIsDownloading fileId True) state,
                [Dispatched (setFileIsDownloading fileId True),
                 Fetch (''/groups/'' @ group (calls state) @ ''/files/'' @ fileId) uid])))
       \<and> (\<forall>blob. fetch (''/groups/'' @ group (calls state) @ ''/files/'' @ fileId) uid = Response (Some blob) \<longrightarrow>
            getFile fileId reduce fetch createObjectURL state =
              (fulfilled,
               (reduce (setFileIsDownloading fileId False)
                  (reduce (setFileBlobUrl fileId (createObjectURL blob))
                     (reduce (setFileIsDownloading fileId True) state)),
                [Dispatched (setFileIsDownloading fileId True),
                 Fetch (''/groups/'' @ group (calls state) @ ''/files/'' @ fileId) uid,
                 Dispatched (setFileBlobUrl fileId (createObjectURL blob)),
                 Dispatched (setFileIsDownloading fileId False)])))"
  using assms
  by (auto simp: getFile_def dispatch_def perform_def Let_def)

lemma example_user: "userId (sdk listedFileState) = Some ''user1''"
  by (simp add: listedFileState_def initialState_def)

lemma example_group: "group (calls listedFileState) = ''g1''"
  by (simp add: listedFileState_def initialState_def)

theorem getFile_downloading_flag_witness:
  "userId (sdk listedFileState) = Some ''user1''
   \<and> fetchRejects ''/groups/g1/files/f1'' ''user1'' = NetworkError
   \<and> getFile ''f1'' rootReducer fetchRejects exampleObjectURL listedFileState =
       (rejected,
        (rootReducer (setFileIsDownloading ''f1'' True) listedFileState,
         [Dispatched (setFileIsDownloading ''f1'' True), Fetch ''/groups/g1/files/f1'' ''user1'']))
   \<and> files (rootReducer (setFileIsDownloading ''f1'' True) listedFileState) ''f1''
       = Some \<lparr>blobUrl = None, isDownloading = True\<rparr>"
proof -
  have n: "fetchRejects ''/groups/g1/files/f1'' ''user1'' = NetworkError"
    by (simp add: fetchRejects_def)
  have f: "files (rootReducer (setFileIsDownloading ''f1'' True) listedFileState) ''f1''
       = Some \<lparr>blobUrl = None, isDownloading = True\<rparr>"
    by (simp add: listedFileState_def)
  from getFile_downloading_flag [OF example_user, of fetchRejects "''f1''" rootReducer exampleObjectURL]
    example_group n
  have "getFile ''f1'' rootReducer fetchRejects exampleObjectURL listedFileState =
       (rejected,
        (rootReducer (setFileIsDownloading ''f1'' True) listedFileState,
         [Dispatched (setFileIsDownloading ''f1'' True), Fetch ''/groups/g1/files/f1'' ''user1'']))"
    by simp
  with example_user n f show ?thesis by blast
qed

text \<open>
  C10, as stated, fails in its last part: the file does not stay marked for ever. A later
  getFile for the same file (getFiles starts one for every image file whose blobUrl is still
  null) whose request resolves dispatches the flag as false, and the store then shows the file
  as not downloading.
\<close>

theorem getFile_flag_reset_later_counterexample:
  "fst (getFile ''f1'' rootReducer fetchRejects exampleObjectURL listedFileState) = rejected
   \<and> files (fst (snd (getFile ''f1'' rootReducer fetchRejects exampleObjectURL listedFileState))) ''f1''
       = Some \<lparr>blobUrl = None, isDownloading = True\<rparr>
   \<and> Dispatched (setFileIsDownloading ''f1'' False)
       \<in> set (snd (snd (getFile ''f1'' rootReducer fetchResolves exampleObjectURL
              (fst (snd (getFile ''f1'' rootReducer fetchRejects exampleObjectURL listedFileState))))))
   \<and> files (fst (snd (getFile ''f1'' rootReducer fetchResolves exampleObjectURL
              (fst (snd (getFile ''f1'' rootReducer fetchRejects exampleObjectURL listedFileState))))))
          ''f1''
       = Some \<lparr>blobUrl = Some ''blob:1'', isDownloading = False\<rparr>"
  by (simp add: getFile_def dispatch_def perform_def Let_def fetchRejects_def fetchResolves_def
      exampleObjectURL_def listedFileState_def initialState_def)

end
